theory Spec2Isabelle
  imports Main
begin

section \<open>The RSS feed of the blog (src/pages/rss.xml.ts)\<close>

text \<open>
  The only executable code of the repository is the route handler \<open>GET\<close> of
  \<^verbatim>\<open>src/pages/rss.xml.ts\<close>:
  \<^verbatim>\<open>
  export async function GET(context: { site: string }) {
    const posts = await getCollection("posts");
    return rss({
      title: "a",
      description: "a",
      site: context.site,
      items: posts.map((post) => ({
        title: post.data.title,
        pubDate: post.data.published,
        link: `/posts/${post.id}`,
        description: post.data.description,
        category: post.data.category,
        author: post.data.author,
        categories: post.data.tags ? [post.data.category, ...post.data.tags]
                                   : [post.data.category],
      })),
    });
  }
  \<close>
  \<open>getCollection\<close> and \<open>rss\<close> belong to the framework. The model takes
  \<open>getCollection\<close> as a parameter. It describes the handler in two steps: \<open>GET\<close>
  is the object that the handler builds and hands to \<open>rss\<close>, the feed document, and
  \<open>GET_response\<close> is what the handler returns, \<open>rss\<close> applied to that object.
\<close>

subsection \<open>JavaScript values\<close>

text \<open>
  The values that occur in the feed document: \<open>undefined\<close>, strings, dates (the time
  value in milliseconds since the epoch), arrays, and objects. An object literal is the
  list of its properties in the order they are written.
\<close>

datatype jsval =
    Undefined
  | Str string
  | Date int
  | Arr "jsval list"
  | Obj "(string \<times> jsval) list"

text \<open>The own properties of an object, their names, and the elements of an array.\<close>

fun props :: "jsval \<Rightarrow> (string \<times> jsval) list" where
  "props (Obj kvs) = kvs"
| "props _ = []"

definition own_keys :: "jsval \<Rightarrow> string list" where
  "own_keys v = map fst (props v)"

text \<open>Reading a property: a name the object does not have reads as \<open>undefined\<close>.\<close>

definition js_get :: "jsval \<Rightarrow> string \<Rightarrow> jsval" where
  "js_get v k = (case map_of (props v) k of Some x \<Rightarrow> x | None \<Rightarrow> Undefined)"

fun elems :: "jsval \<Rightarrow> jsval list" where
  "elems (Arr xs) = xs"
| "elems _ = []"

text \<open>
  A field of optional type holds either a value or \<open>undefined\<close>; \<open>js_opt\<close> is the
  value such a field has at run time.
\<close>

fun js_opt :: "('a \<Rightarrow> jsval) \<Rightarrow> 'a option \<Rightarrow> jsval" where
  "js_opt f None = Undefined"
| "js_opt f (Some x) = f x"

subsection \<open>Site configuration (yukina.config.ts)\<close>

text \<open>The fields of \<open>YukinaConfig\<close> that name and describe the site.\<close>

record configuration =
  title :: string
  subTitle :: string
  brandTitle :: string
  description :: string
  site :: string

text \<open>
  The description contains an en dash (U+2013), written here as its three UTF-8 bytes.
\<close>

definition YukinaConfig :: configuration where
  "YukinaConfig = \<lparr>
     title = ''Hamim's Blog'',
     subTitle = ''Thoughts, Code & Creativity'',
     brandTitle = ''Home'',
     description = ''Personal blog by Hamim '' @ [CHR 0xE2, CHR 0x80, CHR 0x93] @
       '' covering code, backend architecture, frontend ideas, and tech insights.'',
     site = ''https://seracoder.com'' \<rparr>"

subsection \<open>Post records\<close>

text \<open>
  Modelled from the spec: the schema of the \<open>posts\<close> collection (the content
  configuration of the site) is not among the sources. The fields are those of section 3
  of the specification (\<open>title\<close>, \<open>published\<close>, \<open>description\<close>, \<open>category\<close> "optional
  per-record but expected", \<open>tags\<close> "optional; may be absent"), together with
  \<open>author\<close>, \<open>draft\<close> and \<open>cover\<close>, which every post's front matter carries and of
  which \<open>GET\<close> reads \<open>author\<close>. An optional field that is absent is \<open>None\<close>. Both
  records are extensible: an entry of the collection and its data may carry further
  fields, which \<open>GET\<close> never reads.
\<close>

record post_data =
  title :: string
  published :: int
  description :: string
  tags :: "string list option"
  category :: "string option"
  author :: "string option"
  draft :: "bool option"
  cover :: "string option"

record 'a post =
  post_id :: string
  data :: "'a post_data_scheme"

text \<open>
  The parameter of \<open>GET\<close> has the structural type \<open>{ site: string }\<close>: any object with
  a \<open>site\<close> field.
\<close>

record request_context =
  site :: string

subsection \<open>The feed\<close>

text \<open>
  The callback of \<open>posts.map\<close>, one feed entry per post. An array is truthy even
  when it is empty, so the test \<open>post.data.tags ? ... : ...\<close> takes its first branch
  exactly when \<open>tags\<close> is present; spreading the tags lists them in order.
\<close>

definition item :: "('a, 'b) post_scheme \<Rightarrow> jsval" where
  "item post = Obj
     [(''title'', Str (title (data post))),
      (''pubDate'', Date (published (data post))),
      (''link'', Str (''/posts/'' @ post_id post)),
      (''description'', Str (description (data post))),
      (''category'', js_opt Str (category (data post))),
      (''author'', js_opt Str (author (data post))),
      (''categories'',
        (case tags (data post) of
           Some ts \<Rightarrow> Arr (js_opt Str (category (data post)) # map Str ts)
         | None \<Rightarrow> Arr [js_opt Str (category (data post))]))]"

text \<open>
  \<open>GET\<close>: the feed document built from the collection named \<open>posts\<close> and the
  request context, that is, the argument of \<open>rss\<close> in the handler.
\<close>

definition GET ::
  "(string \<Rightarrow> ('a, 'b) post_scheme list) \<Rightarrow> 'c request_context_scheme \<Rightarrow> jsval" where
  "GET getCollection context =
     (let posts = getCollection ''posts'' in
      Obj
        [(''title'', Str ''a''),
         (''description'', Str ''a''),
         (''site'', Str (site context)),
         (''items'', Arr (map item posts))])"

subsection \<open>Handing the feed to rss\<close>






subsection \<open>Example data\<close>

text \<open>Two posts of the repository, from their front matter.\<close>

definition post_threading :: "unit post" where
  "post_threading = \<lparr>
     post_id = ''a-comprehensive-guide-to-python-threading'',
     data = \<lparr>
       title = ''A Comprehensive Guide to Python Threading'',
       published = 1703721600000,
       description = ''A comprehensive guide to Python threading, covering the basics, synchronization, communication, thread safety, advanced concepts, and real-world examples.'',
       tags = Some [''threading'', ''concurrency''],
       category = Some ''Python'',
       author = Some ''Md hamim'',
       draft = Some False,
       cover = Some ''/covers/python-threading.webp'' \<rparr> \<rparr>"

definition post_rapidoc :: "unit post" where
  "post_rapidoc = \<lparr>
     post_id = ''adding-rapidoc-documentation-to-your-fastapi-application'',
     data = \<lparr>
       title = ''Adding RapiDoc Documentation to FastAPI'',
       published = 1746403200000,
       description = ''Enhance your FastAPI documentation with RapiDoc'',
       tags = Some [''fastapi'', ''rapidoc''],
       category = Some ''Python'',
       author = Some ''Md hamim'',
       draft = Some False,
       cover = Some ''/covers/rapidoc-fastapi.webp'' \<rparr> \<rparr>"

text \<open>The second record of the example scenario of the specification: no tags.\<close>

definition post_b :: "unit post" where
  "post_b = \<lparr>
     post_id = ''b'',
     data = \<lparr>
       title = ''Post B'',
       published = 1706745600000,
       description = ''Desc B'',
       tags = None,
       category = Some ''JS'',
       author = None,
       draft = None,
       cover = None \<rparr> \<rparr>"

text \<open>The same record with an empty list of tags.\<close>

definition post_b_no_tags :: "unit post" where
  "post_b_no_tags = post_b\<lparr>data := (data post_b)\<lparr>tags := Some []\<rparr>\<rparr>"

text \<open>A record without category and without tags.\<close>

definition post_uncategorised :: "unit post" where
  "post_uncategorised = \<lparr>
     post_id = ''c'',
     data = \<lparr>
       title = ''Post C'',
       published = 1709251200000,
       description = ''Desc C'',
       tags = None,
       category = None,
       author = Some ''Md hamim'',
       draft = None,
       cover = None \<rparr> \<rparr>"

text \<open>
  A content store whose only collection is \<open>posts\<close>. Its records are ordered neither
  by date nor by title nor by id.
\<close>

definition blog :: "string \<Rightarrow> unit post list" where
  "blog name = (if name = ''posts'' then [post_rapidoc, post_threading, post_b] else [])"

text \<open>The same posts beside a second collection.\<close>

definition blog_with_pages :: "string \<Rightarrow> unit post list" where
  "blog_with_pages name = (if name = ''pages'' then [post_uncategorised] else blog name)"

text \<open>The same posts, each marked as a draft and stripped of its cover.\<close>

definition as_draft :: "unit post \<Rightarrow> unit post" where
  "as_draft p = p\<lparr>data := (data p)\<lparr>draft := Some True, cover := None\<rparr>\<rparr>"

definition blog_drafts :: "string \<Rightarrow> unit post list" where
  "blog_drafts name = map as_draft (blog name)"


subsection \<open>Posts that differ only in draft and cover\<close>

text \<open>
  \<open>q\<close> is \<open>p\<close> with possibly other values of \<open>draft\<close> and \<open>cover\<close>: every other
  field, of the entry and of its data, is the same.
\<close>

definition differ_only_in_draft_cover ::
  "('a, 'b) post_scheme \<Rightarrow> ('a, 'b) post_scheme \<Rightarrow> bool" where
  "differ_only_in_draft_cover p q \<longleftrightarrow>
     q = p\<lparr>data := (data p)\<lparr>draft := draft (data q), cover := cover (data q)\<rparr>\<rparr>"

section \<open>Properties\<close>

subsection \<open>Reading an entry and the feed\<close>

lemma own_keys_item:
  "own_keys (item p) =
     [''title'', ''pubDate'', ''link'', ''description'', ''category'', ''author'',
      ''categories'']"
  by (simp add: own_keys_def item_def)


lemma js_get_item_author:
  "js_get (item p) ''author'' = js_opt Str (author (data p))"
  by (simp add: js_get_def item_def)

lemma js_get_item_categories:
  "js_get (item p) ''categories'' =
     (case tags (data p) of
        Some ts \<Rightarrow> Arr (js_opt Str (category (data p)) # map Str ts)
      | None \<Rightarrow> Arr [js_opt Str (category (data p))])"
  by (simp add: js_get_def item_def)

lemma items_GET:
  "elems (js_get (GET getCollection context) ''items'') = map item (getCollection ''posts'')"
  by (simp add: js_get_def GET_def)

text \<open>An entry does not depend on the draft flag or on the cover of its post.\<close>

lemma item_draft_cover:
  "item (p\<lparr>data := (data p)\<lparr>draft := d, cover := c\<rparr>\<rparr>) = item p"
  by (simp add: item_def split: option.split)

lemma item_differ_only:
  assumes "differ_only_in_draft_cover p q"
  shows "item p = item q"
proof -
  from assms
  have "q = p\<lparr>data := (data p)\<lparr>draft := draft (data q), cover := cover (data q)\<rparr>\<rparr>"
    by (simp add: differ_only_in_draft_cover_def)
  then have
    "item q = item (p\<lparr>data := (data p)\<lparr>draft := draft (data q), cover := cover (data q)\<rparr>\<rparr>)"
    by simp
  then show ?thesis
    by (simp only: item_draft_cover)
qed

lemma map_item_differ_only:
  "list_all2 differ_only_in_draft_cover ps qs \<Longrightarrow> map item ps = map item qs"
proof (induction rule: list_all2_induct)
  case Nil
  show ?case by simp
next
  case (Cons p ps q qs)
  then show ?case by (simp add: item_differ_only)
qed




subsection \<open>Categories of an entry\<close>

text \<open>
  C1. For every post record \<open>r\<close> whose tags are present and non-empty, the categories of
  the entry produced for \<open>r\<close> are the category of \<open>r\<close> followed by its tags, in order.
\<close>

theorem categories_prepend_category:
  assumes "tags (data r) = Some (t # ts)"
  shows "js_get (item r) ''categories'' =
    Arr (js_opt Str (category (data r)) # map Str (t # ts))"
  using assms by (simp add: js_get_item_categories)

theorem categories_prepend_category_witness:
  "tags (data post_threading) = Some [''threading'', ''concurrency''] \<and>
   js_get (item post_threading) ''categories'' =
     Arr [Str ''Python'', Str ''threading'', Str ''concurrency'']"
proof -
  have h: "tags (data post_threading) = Some (''threading'' # [''concurrency''])"
    by (simp add: post_threading_def)
  have "category (data post_threading) = Some ''Python''"
    by (simp add: post_threading_def)
  with categories_prepend_category [OF h] h show ?thesis by simp
qed

text \<open>
  C2. For every post record \<open>r\<close> whose tags are absent, and for every post record whose
  tags are present but empty, the categories of the entry produced for \<open>r\<close> are the
  single-element sequence holding the category of \<open>r\<close>.
\<close>

theorem categories_without_tags:
  assumes "tags (data r) = None \<or> tags (data r) = Some []"
  shows "js_get (item r) ''categories'' = Arr [js_opt Str (category (data r))]"
  using assms
proof
  assume "tags (data r) = None"
  then show ?thesis by (simp add: js_get_item_categories)
next
  assume "tags (data r) = Some []"
  then show ?thesis by (simp add: js_get_item_categories)
qed

theorem categories_without_tags_witness:
  "tags (data post_b) = None \<and>
   js_get (item post_b) ''categories'' = Arr [Str ''JS''] \<and>
   tags (data post_b_no_tags) = Some [] \<and>
   js_get (item post_b_no_tags) ''categories'' = Arr [Str ''JS'']"
proof -
  have absent: "tags (data post_b) = None"
    by (simp add: post_b_def)
  have empty: "tags (data post_b_no_tags) = Some []"
    by (simp add: post_b_no_tags_def)
  have "category (data post_b) = Some ''JS''"
    and "category (data post_b_no_tags) = Some ''JS''"
    by (simp_all add: post_b_def post_b_no_tags_def)
  with absent empty categories_without_tags [of post_b]
    categories_without_tags [of post_b_no_tags]
  show ?thesis by simp
qed

subsection \<open>Fields of an entry\<close>

text \<open>
  C3, as stated: every entry consists of exactly the six fields \<open>title\<close>, \<open>pubDate\<close>,
  \<open>link\<close>, \<open>description\<close>, \<open>category\<close> and \<open>categories\<close>. The entry of the post on
  threading has a seventh field, \<open>author\<close>.
\<close>

theorem entry_six_fields_counterexample:
  "set (own_keys (item post_threading)) \<noteq>
     {''title'', ''pubDate'', ''link'', ''description'', ''category'', ''categories''}"
proof -
  have "''author'' \<in> set (own_keys (item post_threading))"
    by (simp add: own_keys_item)
  moreover have "''author'' \<notin>
      {''title'', ''pubDate'', ''link'', ''description'', ''category'', ''categories''}"
    by simp
  ultimately show ?thesis by metis
qed

text \<open>
  C3, amended. For every post record, the entry derived from it consists of exactly seven
  fields: \<open>title\<close>, \<open>pubDate\<close>, \<open>link\<close>, \<open>description\<close>, \<open>category\<close>, \<open>author\<close> and
  \<open>categories\<close>, where \<open>author\<close> is the author of the post (\<open>undefined\<close> when the post
  has none).
\<close>

theorem entry_seven_fields:
  "own_keys (item r) =
     [''title'', ''pubDate'', ''link'', ''description'', ''category'', ''author'',
      ''categories''] \<and>
   js_get (item r) ''author'' = js_opt Str (author (data r))"
  by (simp add: own_keys_item js_get_item_author)

text \<open>
  C5. For every post record \<open>r\<close>, the link of the entry produced for \<open>r\<close> is the fixed
  prefix \<open>/posts/\<close> followed by the id of \<open>r\<close>.
\<close>

theorem entry_link:
  "js_get (item r) ''link'' = Str (''/posts/'' @ post_id r)"
  by (simp add: js_get_def item_def)

subsection \<open>Metadata of the feed\<close>

text \<open>
  C4, as stated: the title, the description and the site of the feed are fixed literals of
  the source. The site is not: two request contexts with different sites give feeds with
  different sites.
\<close>

theorem feed_site_literal_counterexample:
  "js_get (GET blog \<lparr>site = ''https://seracoder.com''\<rparr>) ''site'' \<noteq>
   js_get (GET blog \<lparr>site = ''http://localhost:4321''\<rparr>) ''site''"
  by (simp add: js_get_def GET_def)

text \<open>
  C4, amended. For every invocation, the title and the description of the feed are the
  fixed literal \<open>a\<close> of the source, not the title and the description of the site
  configuration; the site of the feed is no literal, it is the site of the request
  context passed to \<open>GET\<close>.
\<close>

theorem feed_metadata:
  "js_get (GET getCollection context) ''title'' = Str ''a'' \<and>
   js_get (GET getCollection context) ''description'' = Str ''a'' \<and>
   js_get (GET getCollection context) ''site'' = Str (site context) \<and>
   js_get (GET getCollection context) ''title'' \<noteq> Str (configuration.title YukinaConfig) \<and>
   js_get (GET getCollection context) ''description'' \<noteq>
     Str (configuration.description YukinaConfig)"
  by (simp add: js_get_def GET_def YukinaConfig_def)

subsection \<open>Entries of the feed\<close>

text \<open>
  C6. For every collection of post records, the empty one included, the entries of the
  feed are the entries of the records of the collection, one for each record, none left
  out and none repeated; so the feed has as many entries as the collection has records.
\<close>

theorem one_entry_per_record:
  "elems (js_get (GET getCollection context) ''items'') =
     map item (getCollection ''posts'') \<and>
   length (elems (js_get (GET getCollection context) ''items'')) =
     length (getCollection ''posts'')"
proof
  show "elems (js_get (GET getCollection context) ''items'') =
      map item (getCollection ''posts'')"
    by (simp add: js_get_def GET_def)
  then show "length (elems (js_get (GET getCollection context) ''items'')) =
      length (getCollection ''posts'')"
    by simp
qed

text \<open>
  C7. For every collection of post records, the entries of the feed are in the order of
  the records: the entry at each position is the entry of the record at that position.
\<close>

theorem entries_in_input_order:
  assumes "i < length (getCollection ''posts'')"
  shows "elems (js_get (GET getCollection context) ''items'') ! i =
    item (getCollection ''posts'' ! i)"
proof -
  have "elems (js_get (GET getCollection context) ''items'') ! i =
      map item (getCollection ''posts'') ! i"
    by (simp only: items_GET)
  also from assms have "\<dots> = item (getCollection ''posts'' ! i)"
    by (rule nth_map)
  finally show ?thesis .
qed

theorem entries_in_input_order_witness:
  "(1::nat) < length (blog ''posts'') \<and>
   blog ''posts'' ! 1 = post_threading \<and>
   elems (js_get (GET blog \<lparr>site = ''https://seracoder.com''\<rparr>) ''items'') ! 1 =
     item post_threading"
proof -
  have h: "(1::nat) < length (blog ''posts'')"
    by (simp add: blog_def)
  have "blog ''posts'' ! 1 = post_threading"
    by (simp add: blog_def)
  with entries_in_input_order [of 1 blog "\<lparr>site = ''https://seracoder.com''\<rparr>"] h
  show ?thesis by simp
qed




subsection \<open>What the feed depends on\<close>

text \<open>
  C9. The feed is determined by the collection of posts and the site of the context: two
  invocations on the same collection, with contexts of the same site, produce the same
  document, whatever else the content store and the contexts hold.
\<close>

theorem GET_deterministic:
  assumes "site context = site context'"
    and "getCollection ''posts'' = getCollection' ''posts''"
  shows "GET getCollection context = GET getCollection' context'"
  using assms by (simp add: GET_def)

theorem GET_deterministic_witness:
  "blog ''posts'' = blog_with_pages ''posts'' \<and>
   blog ''pages'' \<noteq> blog_with_pages ''pages'' \<and>
   GET blog \<lparr>site = ''https://seracoder.com''\<rparr> =
   GET blog_with_pages \<lparr>site = ''https://seracoder.com'', \<dots> = True\<rparr>"
proof -
  have same: "blog ''posts'' = blog_with_pages ''posts''"
    by (simp add: blog_with_pages_def)
  have other: "blog ''pages'' \<noteq> blog_with_pages ''pages''"
    by (simp add: blog_with_pages_def blog_def)
  have "site \<lparr>site = ''https://seracoder.com''\<rparr> =
      site \<lparr>site = ''https://seracoder.com'', \<dots> = True\<rparr>"
    by simp
  from GET_deterministic [of "\<lparr>site = ''https://seracoder.com''\<rparr>"
      "\<lparr>site = ''https://seracoder.com'', \<dots> = True\<rparr>" blog blog_with_pages]
    this same other
  show ?thesis by simp
qed

text \<open>
  C10. Two collections whose records differ only in their draft flags and covers produce
  the same feed; a post marked as a draft has its entry like any other post.
\<close>

theorem feed_ignores_draft_and_cover:
  assumes "list_all2 differ_only_in_draft_cover
    (getCollection ''posts'') (getCollection' ''posts'')"
  shows "GET getCollection context = GET getCollection' context"
proof -
  from assms have "map item (getCollection ''posts'') = map item (getCollection' ''posts'')"
    by (rule map_item_differ_only)
  then show ?thesis
    by (simp add: GET_def)
qed

theorem feed_ignores_draft_and_cover_witness:
  "list_all2 differ_only_in_draft_cover (blog ''posts'') (blog_drafts ''posts'') \<and>
   map (\<lambda>p. draft (data p)) (blog ''posts'') = [Some False, Some False, None] \<and>
   map (\<lambda>p. draft (data p)) (blog_drafts ''posts'') = [Some True, Some True, Some True] \<and>
   GET blog \<lparr>site = ''https://seracoder.com''\<rparr> =
   GET blog_drafts \<lparr>site = ''https://seracoder.com''\<rparr>"
proof -
  have h: "list_all2 differ_only_in_draft_cover (blog ''posts'') (blog_drafts ''posts'')"
    by (simp add: blog_drafts_def blog_def as_draft_def differ_only_in_draft_cover_def)
  have d: "map (\<lambda>p. draft (data p)) (blog ''posts'') = [Some False, Some False, None]"
    by (simp add: blog_def post_rapidoc_def post_threading_def post_b_def)
  have d': "map (\<lambda>p. draft (data p)) (blog_drafts ''posts'') =
      [Some True, Some True, Some True]"
    by (simp add: blog_drafts_def blog_def as_draft_def)
  from feed_ignores_draft_and_cover
    [of blog blog_drafts "\<lparr>site = ''https://seracoder.com''\<rparr>"] h d d'
  show ?thesis by simp
qed

end
